theory Spec2Isabelle
  imports Complex_Main "HOL-Library.Log_Nat"
begin

section \<open>Python values of the benchmark scripts\<close>

text \<open>
  The scripts \<^verbatim>\<open>methods/elki/pca.py\<close> and \<^verbatim>\<open>methods/mlpack/gmm.py\<close> drive an external
  executable, capture its output and read a timer from it. A \<^verbatim>\<open>bytes\<close> object is a list
  of 8-bit characters, a \<^verbatim>\<open>str\<close> object a list of Unicode code points. A Python float
  is an IEEE 754 double: a finite one is the rational number it equals, the two
  infinities and NaN are separate values (the sign of zero is not modelled).
\<close>

type_synonym bytes = string
type_synonym str = "nat list"

definition lit :: "string \<Rightarrow> str" where
  "lit s = map of_char s"

datatype exn =
    Exception str
  | TimeoutExpired
  | CalledProcessError
  | OSError
  | UnicodeDecodeError
  | ValueError
  | AttributeError
  | TypeError

datatype 'a result = Returns 'a | Raises exn | Hangs

datatype pyfloat = Finite rat | Infinite bool | NaN

datatype pyval = PInt int | PStr str | PBool bool | PNone

type_synonym options = "(str \<times> pyval) list"

text \<open>What a method hands back: an integer code, a float, a metrics dictionary, or the
  one-field namedtuple \<^verbatim>\<open>timer\<close>.\<close>

datatype obj = IntV int | FloatV pyfloat | DictV "(str \<times> pyfloat) list" | TimerV pyfloat

datatype descr = Str str | Bytes bytes

subsection \<open>The world outside the scripts\<close>

text \<open>
  A child process either cannot be launched, or exits after some time with a status and
  its combined output, or never exits. The tables of the Unicode database
  (\<^verbatim>\<open>Py_UNICODE_TODECIMAL\<close>, \<^verbatim>\<open>Py_UNICODE_ISSPACE\<close>) depend on the Python version and
  \<^verbatim>\<open>shlex.split\<close> is library code, so they are parameters of the model, together with the
  behaviour of the operating system on an argument vector.
\<close>

datatype proc = NoLaunch | Exits rat int bytes | Forever

record world =
  todecimal :: "nat \<Rightarrow> nat option"
  isspace :: "nat \<Rightarrow> bool"
  shlex_split :: "str \<Rightarrow> exn + str list"
  child :: "str list \<Rightarrow> proc"

datatype level = Info | Warn | Fatal

datatype msg =
    Perform_PCA
  | Perform_GMM
  | Unknown_parameters options
  | Could_not_execute "str list"
  | Str_of exn
  | Cant_parse_wrong_format
  | Cant_parse_the_timer
  | Cant_parse_description
  | Total_time pyfloat

text \<open>
  Modelled from the spec: the logging helper \<^verbatim>\<open>Log\<close> (\<^verbatim>\<open>util/log.py\<close>) is not among the
  sources; the spec treats it as a logging channel that reports a message and returns.
  A call is recorded as an event with its level, its message and the verbosity flag it
  was given (if any). The other event is the launch of a child process, with the
  argument vector and the timeout handed to \<^verbatim>\<open>subprocess.check_output\<close>.
\<close>

datatype event = Log level msg "bool option" | Exec "str list" "rat option"

subsection \<open>\<^verbatim>\<open>subprocess.check_output\<close>\<close>

text \<open>
  \<^verbatim>\<open>check_output(cmd, stderr=STDOUT, shell=False, timeout=t)\<close>: a launch failure raises
  \<^verbatim>\<open>OSError\<close>; with a timeout \<open>t\<close> (any number, also \<open>0\<close>) a child still running after
  \<open>t\<close> seconds is killed and \<^verbatim>\<open>TimeoutExpired\<close> is raised; a nonzero exit status raises
  \<^verbatim>\<open>CalledProcessError\<close>; otherwise the captured bytes are returned. Without a timeout
  (\<^verbatim>\<open>None\<close>) the call waits for the child, for ever if need be.
\<close>

definition check_output :: "world \<Rightarrow> str list \<Rightarrow> rat option \<Rightarrow> bytes result \<times> event list" where
  "check_output w cmd tmo =
     (case child w cmd of
        NoLaunch \<Rightarrow> Raises OSError
      | Forever \<Rightarrow> (case tmo of None \<Rightarrow> Hangs | Some t \<Rightarrow> Raises TimeoutExpired)
      | Exits d st out \<Rightarrow>
          (if (case tmo of None \<Rightarrow> False | Some t \<Rightarrow> t < d) then Raises TimeoutExpired
           else if st \<noteq> 0 then Raises CalledProcessError
           else Returns out),
      [Exec cmd tmo])"

subsection \<open>\<^verbatim>\<open>bytes.decode()\<close>: strict UTF-8\<close>

definition cont :: "char \<Rightarrow> bool" where
  "cont c = (128 \<le> (of_char c :: nat) \<and> (of_char c :: nat) \<le> 191)"

definition low6 :: "char \<Rightarrow> nat" where
  "low6 c = of_char c - 128"

definition seq2 :: "char \<Rightarrow> char \<Rightarrow> nat option" where
  "seq2 a b =
     (let x = of_char a :: nat in
      if 194 \<le> x \<and> x \<le> 223 \<and> cont b then Some ((x - 192) * 64 + low6 b) else None)"

definition seq3 :: "char \<Rightarrow> char \<Rightarrow> char \<Rightarrow> nat option" where
  "seq3 a b c =
     (let x = of_char a :: nat; y = of_char b :: nat in
      if 224 \<le> x \<and> x \<le> 239 \<and> cont b \<and> cont c
         \<and> (if x = 224 then 160 \<le> y else True) \<and> (if x = 237 then y \<le> 159 else True)
      then Some ((x - 224) * 4096 + low6 b * 64 + low6 c) else None)"

definition seq4 :: "char \<Rightarrow> char \<Rightarrow> char \<Rightarrow> char \<Rightarrow> nat option" where
  "seq4 a b c d =
     (let x = of_char a :: nat; y = of_char b :: nat in
      if 240 \<le> x \<and> x \<le> 244 \<and> cont b \<and> cont c \<and> cont d
         \<and> (if x = 240 then 144 \<le> y else True) \<and> (if x = 244 then y \<le> 143 else True)
      then Some ((x - 240) * 262144 + low6 b * 4096 + low6 c * 64 + low6 d) else None)"

fun decode :: "bytes \<Rightarrow> str option" where
  "decode [] = Some []"
| "decode (a # bs) =
     (if (of_char a :: nat) < 128 then map_option ((#) (of_char a)) (decode bs)
      else case bs of
        [] \<Rightarrow> None
      | b # cs \<Rightarrow>
          (case seq2 a b of
             Some u \<Rightarrow> map_option ((#) u) (decode cs)
           | None \<Rightarrow>
               (case cs of
                  [] \<Rightarrow> None
                | c # ds \<Rightarrow>
                    (case seq3 a b c of
                       Some u \<Rightarrow> map_option ((#) u) (decode ds)
                     | None \<Rightarrow>
                         (case ds of
                            [] \<Rightarrow> None
                          | d # es \<Rightarrow>
                              (case seq4 a b c d of
                                 Some u \<Rightarrow> map_option ((#) u) (decode es)
                               | None \<Rightarrow> None))))))"

subsection \<open>Doubles\<close>

text \<open>
  \<open>to_double\<close> rounds a rational to the nearest double, ties to even, as the conversion
  of a decimal string and the division of two floats do: the exponent of the value is
  found (not below that of the subnormals), the value is rounded to 53 bits at that
  exponent, and a result of \<open>2 ^ 1024\<close> or more is an infinity.
\<close>

definition pow2 :: "int \<Rightarrow> rat" where
  "pow2 e = (if 0 \<le> e then 2 ^ nat e else 1 / 2 ^ nat (- e))"

definition round_even :: "rat \<Rightarrow> int" where
  "round_even r =
     (let f = \<lfloor>r\<rfloor>; d = r - of_int f in
      if d < 1 / 2 then f else if 1 / 2 < d then f + 1 else if even f then f else f + 1)"

definition ilog2 :: "rat \<Rightarrow> int" where
  "ilog2 a =
     (if 1 \<le> a then int (floorlog 2 (nat \<lfloor>a\<rfloor>)) - 1
      else (let j = int (floorlog 2 (nat \<lfloor>1 / a\<rfloor>)) - 1 in
            if a * pow2 j = 1 then - j else - j - 1))"

definition to_double :: "rat \<Rightarrow> pyfloat" where
  "to_double q =
     (if q = 0 then Finite 0
      else (let a = \<bar>q\<bar>;
                u = max (ilog2 a) (- 1022) - 52;
                v = of_int (round_even (a / pow2 u)) * pow2 u
            in if pow2 1024 \<le> v then Infinite (q < 0)
               else Finite (if q < 0 then - v else v)))"

subsection \<open>\<^verbatim>\<open>float()\<close> of a string\<close>

text \<open>
  \<^verbatim>\<open>float\<close> strips ASCII whitespace at both ends, accepts underscores between digits,
  then reads \<^verbatim>\<open>inf\<close>, \<^verbatim>\<open>infinity\<close> or \<^verbatim>\<open>nan\<close> (any case, optional sign) or a decimal
  number with optional fraction and exponent, which it rounds to a double; anything else
  is a \<^verbatim>\<open>ValueError\<close>.
\<close>

definition py_isspace :: "char \<Rightarrow> bool" where
  "py_isspace c = ((of_char c :: nat) = 32 \<or> (9 \<le> (of_char c :: nat) \<and> (of_char c :: nat) \<le> 13))"

definition py_isdigit :: "char \<Rightarrow> bool" where
  "py_isdigit c = (48 \<le> (of_char c :: nat) \<and> (of_char c :: nat) \<le> 57)"

definition py_tolower :: "char \<Rightarrow> char" where
  "py_tolower c =
     (if 65 \<le> (of_char c :: nat) \<and> (of_char c :: nat) \<le> 90 then char_of ((of_char c :: nat) + 32) else c)"

definition strip :: "string \<Rightarrow> string" where
  "strip s = rev (dropWhile py_isspace (rev (dropWhile py_isspace s)))"

fun underscores :: "char \<Rightarrow> string \<Rightarrow> string option" where
  "underscores prev [] = (if prev = CHR ''_'' then None else Some [])"
| "underscores prev (c # cs) =
     (if c = CHR ''_'' then (if py_isdigit prev then underscores c cs else None)
      else if prev = CHR ''_'' \<and> \<not> py_isdigit c then None
      else map_option ((#) c) (underscores c cs))"

definition digits_val :: "string \<Rightarrow> nat" where
  "digits_val s = foldl (\<lambda>n c. 10 * n + ((of_char c :: nat) - 48)) 0 s"

definition signed :: "string \<Rightarrow> bool \<times> string" where
  "signed s =
     (case s of
        [] \<Rightarrow> (False, [])
      | c # cs \<Rightarrow> if c = CHR ''-'' then (True, cs) else if c = CHR ''+'' then (False, cs) else (False, s))"

definition inf_or_nan :: "string \<Rightarrow> pyfloat option" where
  "inf_or_nan s =
     (let (neg, r) = signed s; l = map py_tolower r in
      if l = ''inf'' \<or> l = ''infinity'' then Some (Infinite neg)
      else if l = ''nan'' then Some NaN
      else None)"

definition exponent :: "string \<Rightarrow> int option" where
  "exponent s =
     (case s of
        [] \<Rightarrow> Some 0
      | c # cs \<Rightarrow>
          if c = CHR ''e'' \<or> c = CHR ''E'' then
            (let (neg, ds) = signed cs in
             if ds \<noteq> [] \<and> list_all py_isdigit ds
             then Some (if neg then - int (digits_val ds) else int (digits_val ds))
             else None)
          else None)"

definition scale :: "rat \<Rightarrow> int \<Rightarrow> rat" where
  "scale x e = (if 0 \<le> e then x * 10 ^ nat e else x / 10 ^ nat (- e))"

definition decimal :: "string \<Rightarrow> rat option" where
  "decimal s =
     (let (neg, s1) = signed s;
          ip = takeWhile py_isdigit s1;
          r1 = dropWhile py_isdigit s1;
          (fp, r2) = (case r1 of
                        [] \<Rightarrow> ([], r1)
                      | c # t \<Rightarrow> if c = CHR ''.'' then (takeWhile py_isdigit t, dropWhile py_isdigit t)
                                 else ([], r1))
      in if ip = [] \<and> fp = [] then None
         else case exponent r2 of
                None \<Rightarrow> None
              | Some e \<Rightarrow>
                  Some (scale ((if neg then - 1 else 1) * of_nat (digits_val (ip @ fp)))
                          (e - int (length fp))))"

definition float_of_ascii :: "string \<Rightarrow> exn + pyfloat" where
  "float_of_ascii s =
     (case (if CHR ''_'' \<in> set (strip s) then underscores (CHR 0x00) (strip s) else Some (strip s)) of
        None \<Rightarrow> Inl ValueError
      | Some t \<Rightarrow>
          (case inf_or_nan t of
             Some x \<Rightarrow> Inr x
           | None \<Rightarrow> (case decimal t of None \<Rightarrow> Inl ValueError | Some q \<Rightarrow> Inr (to_double q))))"

text \<open>\<^verbatim>\<open>float(b)\<close> for a \<^verbatim>\<open>bytes\<close> object reads the bytes as they are.\<close>

definition float_of_bytes :: "bytes \<Rightarrow> exn + pyfloat" where
  "float_of_bytes b = float_of_ascii b"

text \<open>
  \<^verbatim>\<open>float(s)\<close> for a \<^verbatim>\<open>str\<close> first keeps every code point below 127, turns every
  other whitespace into a blank and every other decimal digit into its ASCII digit; the
  first character that is none of these becomes \<^verbatim>\<open>?\<close> and ends the text.
\<close>

fun to_ascii :: "world \<Rightarrow> str \<Rightarrow> string" where
  "to_ascii w [] = []"
| "to_ascii w (c # cs) =
     (if c < 127 then char_of c # to_ascii w cs
      else if isspace w c then CHR '' '' # to_ascii w cs
      else case todecimal w c of
             None \<Rightarrow> [CHR ''?'']
           | Some d \<Rightarrow> char_of (48 + d) # to_ascii w cs)"

definition float_of_str :: "world \<Rightarrow> str \<Rightarrow> exn + pyfloat" where
  "float_of_str w s = float_of_ascii (to_ascii w s)"

text \<open>The quotient of a float by a positive finite float \<open>k\<close> (here \<^verbatim>\<open>1000.\<close>), rounded
  as the division of two doubles is.\<close>

definition fdiv :: "pyfloat \<Rightarrow> rat \<Rightarrow> pyfloat" where
  "fdiv x k = (case x of Finite q \<Rightarrow> to_double (q / k) | Infinite neg \<Rightarrow> Infinite neg | NaN \<Rightarrow> NaN)"

subsection \<open>\<^verbatim>\<open>str(v)\<close> of an option value\<close>

fun str_nat :: "nat \<Rightarrow> str" where
  "str_nat n = (if n < 10 then [48 + n] else str_nat (n div 10) @ [48 + n mod 10])"

declare str_nat.simps [simp del]

definition str_int :: "int \<Rightarrow> str" where
  "str_int i = (if i < 0 then 45 # str_nat (nat (- i)) else str_nat (nat i))"

fun str_of :: "pyval \<Rightarrow> str" where
  "str_of (PInt i) = str_int i"
| "str_of (PStr s) = s"
| "str_of (PBool b) = (if b then lit ''True'' else lit ''False'')"
| "str_of PNone = lit ''None''"

subsection \<open>Regular expressions, as \<^verbatim>\<open>re.match\<close> runs them\<close>

text \<open>
  The patterns of the scripts are sequences of single characters and character classes
  under a quantifier, around one capture group. \<^verbatim>\<open>match\<close> anchors at the start and
  backtracks: a lazy star tries the shortest run first, a greedy star or plus the longest.
  \<open>runs\<close> lists what is left of the text after each admissible run, shortest first;
  the first complete way through the pattern is the match, and the group is the text
  between the ends of the first and the second part. With \<^verbatim>\<open>re.DOTALL\<close> the dot matches
  every character; \<^verbatim>\<open>re.MULTILINE\<close> changes nothing without \<^verbatim>\<open>^\<close> and \<^verbatim>\<open>$\<close>.
\<close>

datatype 'c atom = Chr 'c | Dot | Space | NonSpace | Digit

datatype quant = Once | LazyStar | Star | Plus

type_synonym 'c pattern = "('c atom \<times> quant) list"

record 'c classes =
  space_class :: "'c \<Rightarrow> bool"
  digit_class :: "'c \<Rightarrow> bool"

fun atom_ok :: "'c classes \<Rightarrow> 'c atom \<Rightarrow> 'c \<Rightarrow> bool" where
  "atom_ok k (Chr a) c = (c = a)"
| "atom_ok k Dot c = True"
| "atom_ok k Space c = space_class k c"
| "atom_ok k NonSpace c = (\<not> space_class k c)"
| "atom_ok k Digit c = digit_class k c"

fun runs :: "('c \<Rightarrow> bool) \<Rightarrow> 'c list \<Rightarrow> 'c list list" where
  "runs P [] = [[]]"
| "runs P (c # cs) = (c # cs) # (if P c then runs P cs else [])"

fun piece :: "'c classes \<Rightarrow> 'c atom \<times> quant \<Rightarrow> 'c list \<Rightarrow> 'c list list" where
  "piece k (a, Once) s = (case s of [] \<Rightarrow> [] | c # cs \<Rightarrow> if atom_ok k a c then [cs] else [])"
| "piece k (a, LazyStar) s = runs (atom_ok k a) s"
| "piece k (a, Star) s = rev (runs (atom_ok k a) s)"
| "piece k (a, Plus) s = rev (tl (runs (atom_ok k a) s))"

fun pieces :: "'c classes \<Rightarrow> 'c pattern \<Rightarrow> 'c list \<Rightarrow> 'c list list" where
  "pieces k [] s = [s]"
| "pieces k (p # ps) s = concat (map (pieces k ps) (piece k p s))"

definition re_match :: "'c classes \<Rightarrow> 'c pattern \<Rightarrow> 'c pattern \<Rightarrow> 'c pattern \<Rightarrow> 'c list \<Rightarrow> 'c list option" where
  "re_match k pre grp post s =
     (case concat (map (\<lambda>r1. concat (map (\<lambda>r2. map (\<lambda>r3. take (length r1 - length r2) r1)
                                                (pieces k post r2))
                                     (pieces k grp r1)))
                       (pieces k pre s)) of
        [] \<Rightarrow> None
      | g # _ \<Rightarrow> Some g)"

definition chars :: "'c list \<Rightarrow> 'c pattern" where
  "chars s = map (\<lambda>c. (Chr c, Once)) s"

text \<open>The classes \<^verbatim>\<open>\s\<close> and \<^verbatim>\<open>\d\<close> of a \<^verbatim>\<open>str\<close> pattern follow the Unicode database,
  those of a \<^verbatim>\<open>bytes\<close> pattern are ASCII.\<close>

definition str_classes :: "world \<Rightarrow> nat classes" where
  "str_classes w = \<lparr>space_class = isspace w, digit_class = (\<lambda>c. todecimal w c \<noteq> None)\<rparr>"

definition bytes_classes :: "char classes" where
  "bytes_classes = \<lparr>space_class = py_isspace, digit_class = py_isdigit\<rparr>"

section \<open>The benchmark objects\<close>

text \<open>
  Both classes keep the constructor's arguments. An omitted \<^verbatim>\<open>timeout\<close> is \<open>0\<close> and an
  omitted \<^verbatim>\<open>verbose\<close> is \<^verbatim>\<open>True\<close>, as the signatures say. Attribute access on a value
  that lacks the attribute raises \<^verbatim>\<open>AttributeError\<close>, and the truth value of an object is
  Python's: an integer is false when it is zero, a namedtuple with a field is never false.
\<close>

record benchmark =
  verbose :: bool
  dataset :: str
  path :: str
  timeout :: rat

record GMM = benchmark +
  debug :: str
  description :: "descr option"

datatype arg = AStr str | ADict options

definition total_time :: "obj \<Rightarrow> pyfloat result" where
  "total_time t = (case t of TimerV x \<Rightarrow> Returns x | _ \<Rightarrow> Raises AttributeError)"

definition em :: "obj \<Rightarrow> pyfloat result" where
  "em t = (case t of TimerV x \<Rightarrow> Returns x | _ \<Rightarrow> Raises AttributeError)"

definition truthy :: "obj \<Rightarrow> bool" where
  "truthy v =
     (case v of
        IntV n \<Rightarrow> (n \<noteq> 0)
      | FloatV x \<Rightarrow> (x \<noteq> Finite 0)
      | DictV d \<Rightarrow> (d \<noteq> [])
      | TimerV x \<Rightarrow> True)"

definition pop :: "options \<Rightarrow> str \<Rightarrow> options" where
  "pop options k = filter (\<lambda>kv. fst kv \<noteq> k) options"

subsection \<open>\<^verbatim>\<open>methods/elki/pca.py\<close>\<close>

definition PCA_init :: "str \<Rightarrow> rat option \<Rightarrow> str \<Rightarrow> bool option \<Rightarrow> benchmark" where
  "PCA_init ds tmo p v =
     \<lparr>verbose = (case v of None \<Rightarrow> True | Some b \<Rightarrow> b),
      dataset = ds,
      path = p,
      timeout = (case tmo of None \<Rightarrow> 0 | Some t \<Rightarrow> t)\<rparr>"

text \<open>\<^verbatim>\<open>process_options\<close> empties the caller's dictionary as it goes: the dictionary it
  leaves behind is the second component.\<close>

definition process_options :: "options \<Rightarrow> str list result \<times> options \<times> event list" where
  "process_options options =
     (let (opts1, options1) =
            (if map_of options (lit ''whiten'') \<noteq> None
             then ([lit ''-dbc.filter'',
                    lit ''normalization.columnwise.AttributeWiseVarianceNormalization,transform.GlobalPrincipalComponentAnalysisTransform''],
                   pop options (lit ''whiten''))
             else ([lit ''-dbc.filter'', lit ''transform.GlobalPrincipalComponentAnalysisTransform''],
                   options));
          (opts2, options2) =
            (case map_of options1 (lit ''new_dimensionality'') of
               Some v \<Rightarrow>
                 (opts1 @ [lit ''-globalpca.filter'', lit ''FirstNEigenPairFilter'', lit ''-pca.filter.n'', str_of v],
                  pop options1 (lit ''new_dimensionality''))
             | None \<Rightarrow> (opts1, options1))
      in if options2 \<noteq> []
         then (Raises (Exception (lit ''unknown parameters'')), options2,
               [Log Fatal (Unknown_parameters options2) None])
         else (Returns opts2, options2, []))"

definition pca_pre :: "nat pattern" where
  "pca_pre = [(Dot, LazyStar)] @ chars (lit ''datasource'') @ [(NonSpace, Star)]
             @ chars (lit ''.load:'') @ [(Space, Star)]"

definition pca_grp :: "nat pattern" where
  "pca_grp = [(Digit, Plus)]"

definition pca_post :: "nat pattern" where
  "pca_post = [(Space, Star)] @ chars (lit ''ms'') @ [(Dot, LazyStar)]"

definition replace_comma :: "str \<Rightarrow> str" where
  "replace_comma s = map (\<lambda>c. if c = 44 then 46 else c) s"

definition timer_of :: "exn + pyfloat \<Rightarrow> rat \<Rightarrow> obj result \<times> event list" where
  "timer_of f k = (case f of Inl e \<Rightarrow> (Raises e, []) | Inr x \<Rightarrow> (Returns (TimerV (fdiv x k)), []))"

definition PCA_parseTimer :: "world \<Rightarrow> bytes \<Rightarrow> obj result \<times> event list" where
  "PCA_parseTimer w data =
     (case decode data of
        None \<Rightarrow> (Raises UnicodeDecodeError, [])
      | Some txt \<Rightarrow>
          (case re_match (str_classes w) pca_pre pca_grp pca_post txt of
             None \<Rightarrow> (Returns (IntV (- 1)), [Log Fatal Cant_parse_wrong_format None])
           | Some g \<Rightarrow>
               if count_list g 46 = 1 then timer_of (float_of_str w g) 1000
               else timer_of (float_of_str w (replace_comma g)) 1000))"

definition pca_cmd :: "benchmark \<Rightarrow> str list \<Rightarrow> str list" where
  "pca_cmd self opts =
     [lit ''java'', lit ''-jar'', path self @ lit ''elki.jar'', lit ''cli'', lit ''-time'',
      lit ''-dbc.in'', dataset self, lit ''-algorithm'', lit ''NullAlgorithm'',
      lit ''-resulthandler'', lit ''DiscardResultHandler''] @ opts"

definition PCA_RunMetrics :: "world \<Rightarrow> benchmark \<Rightarrow> options \<Rightarrow> obj result \<times> event list" where
  "PCA_RunMetrics w self options =
     (let t0 = [Log Info Perform_PCA (Some (verbose self))] in
      case process_options options of
        (Raises e, _, t1) \<Rightarrow> (Raises e, t0 @ t1)
      | (Hangs, _, t1) \<Rightarrow> (Hangs, t0 @ t1)
      | (Returns opts, _, t1) \<Rightarrow>
          (let cmd = pca_cmd self opts in
           case check_output w cmd (Some (timeout self)) of
             (Raises e, t2) \<Rightarrow>
               if e = TimeoutExpired
               then (Returns (IntV (- 2)), t0 @ t1 @ t2 @ [Log Warn (Str_of e) None])
               else (Returns (IntV (- 1)), t0 @ t1 @ t2 @ [Log Fatal (Could_not_execute cmd) None])
           | (Hangs, t2) \<Rightarrow> (Hangs, t0 @ t1 @ t2)
           | (Returns s, t2) \<Rightarrow>
               (case PCA_parseTimer w s of
                  (Raises e, t3) \<Rightarrow> (Raises e, t0 @ t1 @ t2 @ t3)
                | (Hangs, t3) \<Rightarrow> (Hangs, t0 @ t1 @ t2 @ t3)
                | (Returns timer, t3) \<Rightarrow>
                    if timer \<noteq> IntV (- 1) then
                      (case total_time timer of
                         Raises e \<Rightarrow> (Raises e, t0 @ t1 @ t2 @ t3)
                       | Hangs \<Rightarrow> (Hangs, t0 @ t1 @ t2 @ t3)
                       | Returns x \<Rightarrow>
                           (Returns (DictV [(lit ''Runtime'', x)]),
                            t0 @ t1 @ t2 @ t3 @ [Log Info (Total_time x) (Some (verbose self))]))
                    else (Returns (DictV []), t0 @ t1 @ t2 @ t3))))"

subsection \<open>\<^verbatim>\<open>methods/mlpack/gmm.py\<close>\<close>

text \<open>The methods the class \<^verbatim>\<open>GMM\<close> defines.\<close>

definition GMM_methods :: "string list" where
  "GMM_methods = [''__init__'', ''__del__'', ''RunMemoryProfiling'', ''RunTiming'',
                  ''parseTimer'', ''GetTime'']"

definition descr_pre :: "char pattern" where
  "descr_pre = []"

definition descr_grp :: "char pattern" where
  "descr_grp = [(Dot, LazyStar)]"

definition descr_post :: "char pattern" where
  "descr_post = chars ''Required'' @ [(Dot, LazyStar)] @ chars ''options:''"

definition GMM_init :: "world \<Rightarrow> str \<Rightarrow> rat option \<Rightarrow> str \<Rightarrow> bool option \<Rightarrow> str \<Rightarrow> GMM result \<times> event list" where
  "GMM_init w ds tmo p v dbg =
     (let self = \<lparr>verbose = (case v of None \<Rightarrow> True | Some b \<Rightarrow> b),
                  dataset = ds,
                  path = p,
                  timeout = (case tmo of None \<Rightarrow> 0 | Some t \<Rightarrow> t),
                  debug = dbg,
                  description = None\<rparr> in
      case shlex_split w (path self @ lit ''gmm -h'') of
        Inl e \<Rightarrow> (Raises e, [])
      | Inr cmd \<Rightarrow>
          (case check_output w cmd None of
             (Raises e, t1) \<Rightarrow> (Returns self, t1 @ [Log Fatal (Could_not_execute cmd) None])
           | (Hangs, t1) \<Rightarrow> (Hangs, t1)
           | (Returns s, t1) \<Rightarrow>
               (case re_match bytes_classes descr_pre descr_grp descr_post s of
                  None \<Rightarrow>
                    (Returns (self\<lparr>description := Some (Str [])\<rparr>),
                     t1 @ [Log Warn Cant_parse_description (Some (verbose self))])
                | Some g \<Rightarrow> (Returns (self\<lparr>description := Some (Bytes g)\<rparr>), t1))))"

text \<open>Under \<^verbatim>\<open>re.VERBOSE\<close> the blanks and line breaks of the pattern text are dropped,
  the blank after \<^verbatim>\<open>em:\<close> among them: the pattern is \<^verbatim>\<open>.*?em:(?P<em>.*?)s.*?\<close>.\<close>

definition gmm_pre :: "char pattern" where
  "gmm_pre = [(Dot, LazyStar)] @ chars ''em:''"

definition gmm_grp :: "char pattern" where
  "gmm_grp = [(Dot, LazyStar)]"

definition gmm_post :: "char pattern" where
  "gmm_post = chars ''s'' @ [(Dot, LazyStar)]"

definition GMM_parseTimer :: "bytes \<Rightarrow> obj result \<times> event list" where
  "GMM_parseTimer data =
     (case re_match bytes_classes gmm_pre gmm_grp gmm_post data of
        None \<Rightarrow> (Returns (IntV (- 1)), [Log Fatal Cant_parse_wrong_format None])
      | Some g \<Rightarrow>
          (case float_of_bytes g of
             Inl e \<Rightarrow> (Raises e, [])
           | Inr x \<Rightarrow> (Returns (TimerV x), [])))"

definition GetTime :: "obj \<Rightarrow> pyfloat result" where
  "GetTime timer = em timer"

definition GMM_RunTiming :: "world \<Rightarrow> GMM \<Rightarrow> arg \<Rightarrow> obj result \<times> event list" where
  "GMM_RunTiming w self options =
     (let t0 = [Log Info Perform_GMM (Some (verbose self))] in
      case options of
        ADict d \<Rightarrow> (Raises TypeError, t0)
      | AStr os \<Rightarrow>
          (case shlex_split w (path self @ lit ''gmm -i '' @ dataset self @ lit '' -v '' @ os) of
             Inl e \<Rightarrow> (Raises e, t0)
           | Inr cmd \<Rightarrow>
               (case check_output w cmd (Some (timeout self)) of
                  (Raises e, t2) \<Rightarrow>
                    if e = TimeoutExpired
                    then (Returns (IntV (- 2)), t0 @ t2 @ [Log Warn (Str_of e) None])
                    else (Returns (IntV (- 1)), t0 @ t2 @ [Log Fatal (Could_not_execute cmd) None])
                | (Hangs, t2) \<Rightarrow> (Hangs, t0 @ t2)
                | (Returns s, t2) \<Rightarrow>
                    (case GMM_parseTimer s of
                       (Raises e, t3) \<Rightarrow> (Raises e, t0 @ t2 @ t3)
                     | (Hangs, t3) \<Rightarrow> (Hangs, t0 @ t2 @ t3)
                     | (Returns timer, t3) \<Rightarrow>
                         if \<not> truthy timer
                         then (Returns (IntV (- 1)), t0 @ t2 @ t3 @ [Log Fatal Cant_parse_the_timer None])
                         else (case GetTime timer of
                                 Raises e \<Rightarrow> (Raises e, t0 @ t2 @ t3)
                               | Hangs \<Rightarrow> (Hangs, t0 @ t2 @ t3)
                               | Returns x \<Rightarrow>
                                   (Returns (FloatV x),
                                    t0 @ t2 @ t3 @ [Log Info (Total_time x) (Some (verbose self))]))))))"

section \<open>Sample worlds\<close>

text \<open>
  For closed examples: the Unicode tables restricted to the first 256 code points (the
  ASCII digits; the ASCII and Latin-1 whitespace), a splitter that cuts at blanks (as
  \<^verbatim>\<open>shlex.split\<close> does on text without quotes, backslashes and other whitespace) and an
  operating system under which every command behaves as the given process.
\<close>

fun words_acc :: "str \<Rightarrow> str \<Rightarrow> str list" where
  "words_acc cur [] = (if cur = [] then [] else [rev cur])"
| "words_acc cur (c # cs) =
     (if c = 32 then (if cur = [] then words_acc [] cs else rev cur # words_acc [] cs)
      else words_acc (c # cur) cs)"

definition latin1 :: "proc \<Rightarrow> world" where
  "latin1 p =
     \<lparr>todecimal = (\<lambda>c. if 48 \<le> c \<and> c \<le> 57 then Some (c - 48) else None),
      isspace = (\<lambda>c. c = 32 \<or> (9 \<le> c \<and> c \<le> 13) \<or> (28 \<le> c \<and> c \<le> 31) \<or> c = 133 \<or> c = 160),
      shlex_split = (\<lambda>s. Inr (words_acc [] s)),
      child = (\<lambda>cmd. p)\<rparr>"

text \<open>What every Unicode database satisfies: a decimal digit has a value below ten, is
  not whitespace, and is an ASCII character only if it is one of \<^verbatim>\<open>0\<close> to \<^verbatim>\<open>9\<close>.\<close>

definition unicode_ok :: "world \<Rightarrow> bool" where
  "unicode_ok w =
     (\<forall>c d. todecimal w c = Some d \<longrightarrow> d < 10 \<and> \<not> isspace w c \<and> (c \<le> 127 \<longrightarrow> c = 48 + d))"

section \<open>The command builder\<close>

lemma lit_whiten_neq: "lit ''whiten'' \<noteq> lit ''new_dimensionality''"
  by (simp add: lit_def)

lemma pop_absent: "map_of options k = None \<Longrightarrow> pop options k = options"
  by (auto simp: pop_def map_of_eq_None_iff filter_id_conv)

lemma pop_pop: "pop (pop options a) b = filter (\<lambda>kv. fst kv \<noteq> a \<and> fst kv \<noteq> b) options"
  by (simp add: pop_def conj_commute)

lemma map_of_pop_other: "a \<noteq> b \<Longrightarrow> map_of (pop options a) b = map_of options b"
  by (induction options) (auto simp: pop_def)

lemma process_options_rest:
  "fst (snd (process_options options)) =
     filter (\<lambda>kv. fst kv \<noteq> lit ''whiten'' \<and> fst kv \<noteq> lit ''new_dimensionality'') options"
proof -
  show ?thesis
  proof (cases "map_of options (lit ''whiten'')")
    case None
    then have w: "pop options (lit ''whiten'') = options" by (rule pop_absent)
    show ?thesis
    proof (cases "map_of options (lit ''new_dimensionality'')")
      case n: None
      then have "pop options (lit ''new_dimensionality'') = options" by (rule pop_absent)
      with w have "filter (\<lambda>kv. fst kv \<noteq> lit ''whiten'' \<and> fst kv \<noteq> lit ''new_dimensionality'') options = options"
        using pop_pop[of options "lit ''whiten''" "lit ''new_dimensionality''"] by simp
      with None n show ?thesis by (simp add: process_options_def)
    next
      case (Some v)
      have "pop options (lit ''new_dimensionality'') = filter (\<lambda>kv. fst kv \<noteq> lit ''whiten'' \<and> fst kv \<noteq> lit ''new_dimensionality'') options"
        using pop_pop[of options "lit ''whiten''" "lit ''new_dimensionality''"] w by simp
      with None Some show ?thesis by (simp add: process_options_def)
    qed
  next
    case (Some u)
    have m: "map_of (pop options (lit ''whiten'')) (lit ''new_dimensionality'') = map_of options (lit ''new_dimensionality'')"
      by (rule map_of_pop_other) (rule lit_whiten_neq)
    show ?thesis
    proof (cases "map_of options (lit ''new_dimensionality'')")
      case n: None
      with m have "pop (pop options (lit ''whiten'')) (lit ''new_dimensionality'') = pop options (lit ''whiten'')"
        by (simp add: pop_absent)
      then have "pop options (lit ''whiten'') = filter (\<lambda>kv. fst kv \<noteq> lit ''whiten'' \<and> fst kv \<noteq> lit ''new_dimensionality'') options"
        by (simp add: pop_pop)
      with Some n m show ?thesis by (simp add: process_options_def)
    next
      case s: (Some v)
      with Some m show ?thesis by (simp add: process_options_def pop_pop)
    qed
  qed
qed

lemma process_options_cases:
  "process_options options =
     (if fst (snd (process_options options)) \<noteq> []
      then (Raises (Exception (lit ''unknown parameters'')), fst (snd (process_options options)),
            [Log Fatal (Unknown_parameters (fst (snd (process_options options)))) None])
      else (Returns (case fst (process_options options) of Returns c \<Rightarrow> c | _ \<Rightarrow> []), [], []))"
  by (simp add: process_options_def Let_def split: prod.splits option.splits if_splits)


lemma rest_empty_iff:
  "(filter (\<lambda>kv. fst kv \<noteq> lit ''whiten'' \<and> fst kv \<noteq> lit ''new_dimensionality'') options = [])
     = (set (map fst options) \<subseteq> {lit ''whiten'', lit ''new_dimensionality''})"
  by (auto simp: filter_empty_conv)

lemma process_options_tokens:
  assumes "fst (process_options options) = Returns c"
  shows "c = (if map_of options (lit ''whiten'') \<noteq> None
              then [lit ''-dbc.filter'',
                    lit ''normalization.columnwise.AttributeWiseVarianceNormalization,transform.GlobalPrincipalComponentAnalysisTransform'']
              else [lit ''-dbc.filter'', lit ''transform.GlobalPrincipalComponentAnalysisTransform''])
             @ (case map_of options (lit ''new_dimensionality'') of
                  Some v \<Rightarrow> [lit ''-globalpca.filter'', lit ''FirstNEigenPairFilter'', lit ''-pca.filter.n'', str_of v]
                | None \<Rightarrow> [])"
proof -
  have m: "map_of (pop options (lit ''whiten'')) (lit ''new_dimensionality'') = map_of options (lit ''new_dimensionality'')"
    by (rule map_of_pop_other) (rule lit_whiten_neq)
  show ?thesis
    using assms
    by (cases "map_of options (lit ''whiten'')"; cases "map_of options (lit ''new_dimensionality'')")
       (simp_all add: process_options_def m split: if_splits)
qed

text \<open>
  Claim C8. For every configuration map whose keys are all recognized (\<^verbatim>\<open>whiten\<close>,
  \<^verbatim>\<open>new_dimensionality\<close>), \<^verbatim>\<open>process_options\<close> consumes every key (the dictionary it
  leaves is empty), does not fail and logs nothing, and returns the list of argument
  tokens: the filter chain, with the normalization when \<^verbatim>\<open>whiten\<close> is present, then the
  eigenpair filter with the stringified \<^verbatim>\<open>new_dimensionality\<close> when that is present.
\<close>

theorem process_options_recognized:
  assumes "set (map fst options) \<subseteq> {lit ''whiten'', lit ''new_dimensionality''}"
  shows "process_options options
           = (Returns ((if map_of options (lit ''whiten'') \<noteq> None
              then [lit ''-dbc.filter'',
                    lit ''normalization.columnwise.AttributeWiseVarianceNormalization,transform.GlobalPrincipalComponentAnalysisTransform'']
              else [lit ''-dbc.filter'', lit ''transform.GlobalPrincipalComponentAnalysisTransform''])
             @ (case map_of options (lit ''new_dimensionality'') of
                  Some v \<Rightarrow> [lit ''-globalpca.filter'', lit ''FirstNEigenPairFilter'', lit ''-pca.filter.n'', str_of v]
                | None \<Rightarrow> [])), [], [])"
proof -
  have "fst (snd (process_options options)) = []"
    using assms by (simp only: process_options_rest rest_empty_iff)
  then obtain c where c: "process_options options = (Returns c, [], [])"
    using process_options_cases[of options] by auto
  then have "fst (process_options options) = Returns c" by simp
  from process_options_tokens[OF this] c show ?thesis by simp
qed

theorem process_options_recognized_witness:
  "set (map fst [(lit ''whiten'', PBool True), (lit ''new_dimensionality'', PInt 2)])
     \<subseteq> {lit ''whiten'', lit ''new_dimensionality''}
   \<and> process_options [(lit ''whiten'', PBool True), (lit ''new_dimensionality'', PInt 2)]
       = (Returns [lit ''-dbc.filter'',
                   lit ''normalization.columnwise.AttributeWiseVarianceNormalization,transform.GlobalPrincipalComponentAnalysisTransform'',
                   lit ''-globalpca.filter'', lit ''FirstNEigenPairFilter'', lit ''-pca.filter.n'', lit ''2''],
          [], [])"
proof -
  have h: "set (map fst [(lit ''whiten'', PBool True), (lit ''new_dimensionality'', PInt 2)])
             \<subseteq> {lit ''whiten'', lit ''new_dimensionality''}"
    by simp
  have s: "str_int 2 = lit ''2''"
    by (simp add: str_int_def str_nat.simps lit_def)
  have n: "lit ''new_dimensionality'' \<noteq> lit ''whiten''"
    using lit_whiten_neq by simp
  from process_options_recognized[OF h] h show ?thesis
    by (simp add: n s)
qed

text \<open>
  Claim C7, as amended. For every configuration map with at least one unrecognized key
  the builder fails: it logs a fatal message that carries the remaining entries (the
  dictionary that is left, which holds exactly the unrecognized entries) and raises the
  generic exception \<^verbatim>\<open>unknown parameters\<close>, which carries none of them; no command is
  produced, and the enclosing \<^verbatim>\<open>RunMetrics\<close> call raises the same exception with a trace
  of two log events, so no child process is launched.
\<close>

theorem unknown_option_fails:
  assumes "\<not> set (map fst options) \<subseteq> {lit ''whiten'', lit ''new_dimensionality''}"
  shows "(let rest = filter (\<lambda>kv. fst kv \<noteq> lit ''whiten'' \<and> fst kv \<noteq> lit ''new_dimensionality'') options in
          rest \<noteq> []
          \<and> process_options options
              = (Raises (Exception (lit ''unknown parameters'')), rest,
                 [Log Fatal (Unknown_parameters rest) None])
          \<and> PCA_RunMetrics w self options
              = (Raises (Exception (lit ''unknown parameters'')),
                 [Log Info Perform_PCA (Some (verbose self)), Log Fatal (Unknown_parameters rest) None]))"
proof -
  define rest where "rest = filter (\<lambda>kv. fst kv \<noteq> lit ''whiten'' \<and> fst kv \<noteq> lit ''new_dimensionality'') options"
  have r: "fst (snd (process_options options)) = rest"
    by (simp only: process_options_rest rest_def)
  have ne: "rest \<noteq> []"
    using assms unfolding rest_def by (simp only: rest_empty_iff) simp
  have po: "process_options options
              = (Raises (Exception (lit ''unknown parameters'')), rest,
                 [Log Fatal (Unknown_parameters rest) None])"
    using process_options_cases[of options] r ne by simp
  have "PCA_RunMetrics w self options
          = (Raises (Exception (lit ''unknown parameters'')),
             [Log Info Perform_PCA (Some (verbose self)), Log Fatal (Unknown_parameters rest) None])"
    by (simp add: PCA_RunMetrics_def po)
  with ne po show ?thesis
    unfolding rest_def Let_def by simp
qed

theorem unknown_option_fails_witness:
  "\<not> set (map fst [(lit ''new_dimensionality'', PInt 2), (lit ''scale'', PBool True)])
       \<subseteq> {lit ''whiten'', lit ''new_dimensionality''}
   \<and> process_options [(lit ''new_dimensionality'', PInt 2), (lit ''scale'', PBool True)]
       = (Raises (Exception (lit ''unknown parameters'')), [(lit ''scale'', PBool True)],
          [Log Fatal (Unknown_parameters [(lit ''scale'', PBool True)]) None])
   \<and> PCA_RunMetrics (latin1 (Exits 1 0 ''datasource.load: 12 ms''))
         (PCA_init (lit ''iris.csv'') (Some 240) (lit ''/opt/'') None)
         [(lit ''new_dimensionality'', PInt 2), (lit ''scale'', PBool True)]
       = (Raises (Exception (lit ''unknown parameters'')),
          [Log Info Perform_PCA (Some True),
           Log Fatal (Unknown_parameters [(lit ''scale'', PBool True)]) None])"
proof -
  have h: "\<not> set (map fst [(lit ''new_dimensionality'', PInt 2), (lit ''scale'', PBool True)])
       \<subseteq> {lit ''whiten'', lit ''new_dimensionality''}"
    by (simp add: lit_def)
  have f: "filter (\<lambda>kv. fst kv \<noteq> lit ''whiten'' \<and> fst kv \<noteq> lit ''new_dimensionality'')
             [(lit ''new_dimensionality'', PInt 2), (lit ''scale'', PBool True)] = [(lit ''scale'', PBool True)]"
    by (simp add: lit_def)
  have v: "verbose (PCA_init (lit ''iris.csv'') (Some 240) (lit ''/opt/'') None) = True"
    by (simp add: PCA_init_def)
  show ?thesis
    using h unknown_option_fails[OF h, of "latin1 (Exits 1 0 ''datasource.load: 12 ms'')"
        "PCA_init (lit ''iris.csv'') (Some 240) (lit ''/opt/'') None"]
    unfolding Let_def f v by simp
qed

text \<open>
  The claim as the spec states it fails: the error that reaches the caller does not carry
  the remaining keys. Two maps with different unrecognized keys raise the same exception;
  the keys are only in the dictionary left behind and in the log message.
\<close>

theorem exception_without_keys_counterexample:
  "fst (process_options [(lit ''scale'', PBool True)])
     = Raises (Exception (lit ''unknown parameters''))
   \<and> fst (process_options [(lit ''center'', PInt 1), (lit ''whiten'', PBool True)])
     = Raises (Exception (lit ''unknown parameters''))
   \<and> fst (snd (process_options [(lit ''scale'', PBool True)])) = [(lit ''scale'', PBool True)]
   \<and> fst (snd (process_options [(lit ''center'', PInt 1), (lit ''whiten'', PBool True)]))
     = [(lit ''center'', PInt 1)]"
  by (simp add: process_options_def pop_def lit_def)

section \<open>Doubles\<close>

lemma double_1500: "to_double 1500 = Finite 1500"
  by code_simp

lemma double_3_2: "to_double (3 / 2) = Finite (3 / 2)"
  by code_simp

lemma double_0734: "to_double (367 / 500) = Finite (413205265811243 / 562949953421312)"
  by code_simp

lemma pow2_powi: "pow2 e = 2 powi e"
  by (simp add: pow2_def power_int_def power_one_over inverse_eq_divide)

lemma pow2_pos: "0 < pow2 e"
  by (simp add: pow2_def)

lemma pow2_add: "pow2 (a + b) = pow2 a * pow2 b"
  by (simp add: pow2_powi power_int_add)

lemma pow2_mono: "a \<le> b \<Longrightarrow> pow2 a \<le> pow2 b"
  by (simp add: pow2_powi power_int_increasing)

lemma pow2_nat: "0 \<le> e \<Longrightarrow> pow2 e = of_int (2 ^ nat e)"
  by (simp add: pow2_def)

lemma round_even_ge: "of_int k \<le> r \<Longrightarrow> k \<le> round_even r"
proof -
  assume "of_int k \<le> r"
  then have "k \<le> \<lfloor>r\<rfloor>" by (simp add: le_floor_iff)
  moreover have "\<lfloor>r\<rfloor> \<le> round_even r"
    by (simp add: round_even_def Let_def)
  ultimately show ?thesis by simp
qed

lemma ilog2_le:
  assumes "1 \<le> a"
  shows "pow2 (ilog2 a) \<le> a"
proof -
  let ?n = "nat \<lfloor>a\<rfloor>"
  from assms have n: "0 < ?n" by simp
  from floorlog_bounds[OF n, of 2] have b: "2 ^ (floorlog 2 ?n - 1) \<le> ?n" by simp
  from floorlog_geI[of 2 1 ?n] n have f: "1 \<le> floorlog 2 ?n" by simp
  then have e: "ilog2 a = int (floorlog 2 ?n - 1)"
    using assms by (simp add: ilog2_def)
  have "pow2 (ilog2 a) = of_nat (2 ^ (floorlog 2 ?n - 1))"
    by (simp add: e pow2_def)
  also have "\<dots> \<le> of_nat ?n"
    using b by (simp only: of_nat_le_iff)
  also have "\<dots> \<le> a"
    using assms by (simp add: of_nat_nat) 
  finally show ?thesis .
qed

lemma scaled_ge:
  assumes "pow2 c \<le> a" "u \<le> c"
  shows "pow2 c \<le> of_int (round_even (a / pow2 u)) * pow2 u"
proof -
  have "pow2 c = pow2 ((c - u) + u)" by simp
  then have s: "pow2 c = pow2 (c - u) * pow2 u" by (simp only: pow2_add)
  have "of_int (2 ^ nat (c - u)) = pow2 (c - u)"
    using assms(2) by (simp add: pow2_nat)
  also have "\<dots> = pow2 c / pow2 u"
    using s pow2_pos[of u] by (simp add: field_simps)
  also have "\<dots> \<le> a / pow2 u"
    using assms(1) pow2_pos[of u] by (simp add: divide_right_mono)
  finally have "2 ^ nat (c - u) \<le> round_even (a / pow2 u)"
    by (rule round_even_ge)
  then have "(of_int (2 ^ nat (c - u)) :: rat) \<le> of_int (round_even (a / pow2 u))"
    by (simp only: of_int_le_iff)
  then have "pow2 (c - u) \<le> of_int (round_even (a / pow2 u))"
    using assms(2) by (simp add: pow2_nat)
  then have "pow2 (c - u) * pow2 u \<le> of_int (round_even (a / pow2 u)) * pow2 u"
    using pow2_pos[of u] by (simp add: mult_right_mono)
  with s show ?thesis by simp
qed

lemma to_double_overflow:
  assumes "pow2 1024 \<le> q"
  shows "to_double q = Infinite False"
proof -
  have p: "0 < pow2 1024" by (rule pow2_pos)
  with assms have q: "0 < q" by simp
  have one: "1 \<le> q"
  proof -
    have "pow2 0 \<le> pow2 1024" by (rule pow2_mono) simp
    with assms show ?thesis by (simp add: pow2_def)
  qed
  define u where "u = max (ilog2 q) (- 1022) - 52"
  have "pow2 1024 \<le> of_int (round_even (q / pow2 u)) * pow2 u"
  proof (cases "u \<le> 1024")
    case True
    with assms show ?thesis by (rule scaled_ge)
  next
    case False
    then have e: "u + 52 = ilog2 q" by (simp add: u_def max_def split: if_splits)
    have "pow2 (u + 52) \<le> q" using ilog2_le[OF one] e by simp
    then have "pow2 (u + 52) \<le> of_int (round_even (q / pow2 u)) * pow2 u"
      by (rule scaled_ge) simp
    moreover have "pow2 1024 \<le> pow2 (u + 52)"
      using False by (intro pow2_mono) simp
    ultimately show ?thesis by simp
  qed
  then show ?thesis
    using q by (simp add: to_double_def Let_def u_def)
qed

section \<open>The timer pattern of PCA and \<^verbatim>\<open>float\<close> on digits\<close>

lemma char_of_eq_iff1: "(char_of (n::nat) = c) = (n mod 256 = of_char c)"
  by (metis char_of_mod_256 char_of_char of_char_of)

lemma runs_split: "r \<in> set (runs P s) \<Longrightarrow> \<exists>g. s = g @ r \<and> list_all P g"
proof (induction s)
  case Nil
  then show ?case by simp
next
  case (Cons c cs)
  show ?case
  proof (cases "r = c # cs")
    case True
    then show ?thesis by simp
  next
    case False
    with Cons.prems have p: "P c" and "r \<in> set (runs P cs)"
      by (auto split: if_splits)
    with Cons.IH obtain g where "cs = g @ r" "list_all P g" by blast
    with p have "c # cs = (c # g) @ r \<and> list_all P (c # g)" by simp
    then show ?thesis by blast
  qed
qed

lemma plus_split:
  assumes "r \<in> set (piece k (a, Plus) s)"
  shows "\<exists>g. s = g @ r \<and> g \<noteq> [] \<and> list_all (atom_ok k a) g"
proof (cases s)
  case Nil
  with assms show ?thesis by simp
next
  case (Cons c cs)
  with assms have p: "atom_ok k a c" and "r \<in> set (runs (atom_ok k a) cs)"
    by (auto split: if_splits)
  then obtain g where "cs = g @ r" "list_all (atom_ok k a) g"
    using runs_split by blast
  with p Cons have "s = (c # g) @ r \<and> c # g \<noteq> [] \<and> list_all (atom_ok k a) (c # g)" by simp
  then show ?thesis by blast
qed

lemma re_match_SomeD:
  assumes "re_match k pre grp post s = Some g"
  shows "\<exists>r1 r2. r1 \<in> set (pieces k pre s) \<and> r2 \<in> set (pieces k grp r1)
           \<and> g = take (length r1 - length r2) r1"
proof -
  let ?all = "concat (map (\<lambda>r1. concat (map (\<lambda>r2. map (\<lambda>r3. take (length r1 - length r2) r1)
                                                (pieces k post r2))
                                     (pieces k grp r1)))
                       (pieces k pre s))"
  from assms obtain rest where "?all = g # rest"
    by (auto simp: re_match_def split: list.splits)
  then have "g \<in> set ?all"
    by (metis list.set_intros(1))
  then show ?thesis by auto
qed

lemma pca_group_digits:
  assumes "re_match (str_classes w) pca_pre pca_grp pca_post txt = Some g"
  shows "g \<noteq> [] \<and> list_all (\<lambda>c. todecimal w c \<noteq> None) g"
proof -
  from re_match_SomeD[OF assms] obtain r1 r2 where
    r2: "r2 \<in> set (pieces (str_classes w) pca_grp r1)" and g: "g = take (length r1 - length r2) r1"
    by blast
  from r2 have "r2 \<in> set (piece (str_classes w) (Digit, Plus) r1)"
    by (simp add: pca_grp_def)
  from plus_split[OF this] obtain h where
    h: "r1 = h @ r2" "h \<noteq> []" "list_all (atom_ok (str_classes w) Digit) h" by blast
  from h(1) g have "g = h" by simp
  with h show ?thesis by (simp add: str_classes_def list_all_iff)
qed

lemma digit_facts:
  assumes "py_isdigit c"
  shows "\<not> py_isspace c" "c \<noteq> CHR ''_''" "c \<noteq> CHR ''-''" "c \<noteq> CHR ''+''"
    "py_tolower c = c" "c \<noteq> CHR ''i''" "c \<noteq> CHR ''n''"
  using assms by (auto simp: py_isdigit_def py_isspace_def py_tolower_def)

lemma strip_digits:
  assumes "ds \<noteq> []" "list_all py_isdigit ds"
  shows "strip ds = ds"
proof -
  from assms have a: "\<not> py_isspace (hd ds)" and b: "\<not> py_isspace (last ds)"
    by (auto simp: list_all_iff digit_facts(1))
  from a assms(1) have 1: "dropWhile py_isspace ds = ds"
    by (cases ds) auto
  from b assms(1) have 2: "dropWhile py_isspace (rev ds) = rev ds"
    by (cases "rev ds") (auto simp: last_rev hd_rev)
  show ?thesis by (simp add: strip_def 1 2)
qed

lemma float_of_ascii_digits:
  assumes "ds \<noteq> []" "list_all py_isdigit ds"
  shows "float_of_ascii ds = Inr (to_double (of_nat (digits_val ds)))"
proof -
  obtain c cs where ds: "ds = c # cs" using assms(1) by (cases ds) auto
  with assms(2) have c: "py_isdigit c" by simp
  have us: "CHR ''_'' \<notin> set ds"
    using assms(2) digit_facts(2) by (auto simp: list_all_iff)
  have sg: "signed ds = (False, ds)"
    using c ds by (simp add: signed_def digit_facts)
  have "map py_tolower ds = py_tolower c # map py_tolower cs" by (simp add: ds)
  then have low: "map py_tolower ds \<noteq> ''inf''" "map py_tolower ds \<noteq> ''infinity''" "map py_tolower ds \<noteq> ''nan''"
    using c by (auto simp: digit_facts)
  have ion: "inf_or_nan ds = None"
    using low by (simp add: inf_or_nan_def sg)
  have tw: "takeWhile py_isdigit ds = ds" "dropWhile py_isdigit ds = []"
    using assms(2) by (auto simp: list_all_iff)
  have dec: "decimal ds = Some (of_nat (digits_val ds))"
    using assms(1) by (simp add: decimal_def sg tw exponent_def scale_def)
  show ?thesis
    by (simp add: float_of_ascii_def strip_digits[OF assms] us ion dec)
qed

lemma to_ascii_digits:
  assumes "unicode_ok w" "list_all (\<lambda>c. todecimal w c \<noteq> None) g"
  shows "list_all py_isdigit (to_ascii w g) \<and> length (to_ascii w g) = length g"
  using assms(2)
proof (induction g)
  case Nil
  then show ?case by simp
next
  case (Cons c cs)
  then obtain d where d: "todecimal w c = Some d" by auto
  with assms(1) have k: "d < 10" "\<not> isspace w c" "c \<le> 127 \<longrightarrow> c = 48 + d"
    by (auto simp: unicode_ok_def)
  have "py_isdigit (char_of (48 + d))"
    using k(1) by (simp add: py_isdigit_def)
  moreover have "to_ascii w (c # cs) = char_of (48 + d) # to_ascii w cs"
    using d k by auto
  ultimately show ?case using Cons by simp
qed

lemma digits_no_sep:
  assumes "unicode_ok w" "list_all (\<lambda>c. todecimal w c \<noteq> None) g"
  shows "count_list g 46 = 0" "replace_comma g = g"
proof -
  have a: "c \<noteq> 46 \<and> c \<noteq> 44" if "c \<in> set g" for c
  proof -
    from that assms(2) obtain d where "todecimal w c = Some d" by (auto simp: list_all_iff)
    with assms(1) have "d < 10" "c \<le> 127 \<longrightarrow> c = 48 + d" by (auto simp: unicode_ok_def)
    then show ?thesis by auto
  qed
  then show "count_list g 46 = 0" by (simp add: count_list_0_iff) blast
  show "replace_comma g = g"
    unfolding replace_comma_def using a by (simp add: map_idI)
qed

lemma PCA_parseTimer_matched:
  assumes "unicode_ok w" "decode data = Some u"
    "re_match (str_classes w) pca_pre pca_grp pca_post u = Some g"
  shows "PCA_parseTimer w data
           = (Returns (TimerV (fdiv (to_double (of_nat (digits_val (to_ascii w g)))) 1000)), [])"
proof -
  from pca_group_digits[OF assms(3)] have g: "g \<noteq> []" "list_all (\<lambda>c. todecimal w c \<noteq> None) g"
    by auto
  from to_ascii_digits[OF assms(1) g(2)] g(1)
  have "to_ascii w g \<noteq> []" "list_all py_isdigit (to_ascii w g)" by auto
  then have "float_of_str w g = Inr (to_double (of_nat (digits_val (to_ascii w g))))"
    by (simp add: float_of_str_def float_of_ascii_digits)
  then show ?thesis
    by (simp add: PCA_parseTimer_def assms(2,3) digits_no_sep[OF assms(1) g(2)] timer_of_def)
qed

text \<open>
  Claim C10, as amended. Whenever \<^verbatim>\<open>PCA.parseTimer\<close> succeeds on a byte string (it
  returns a timer), the bytes decode, the pattern matches, and the captured
  \<^verbatim>\<open>total_time\<close> group is a non-empty run of decimal digits; so the group never holds
  exactly one \<^verbatim>\<open>.\<close> (the first branch is not taken), and the timer is
  \<^verbatim>\<open>float(n) / 1000.\<close> for the natural number \<open>n\<close> of milliseconds that the digits denote:
  the double nearest \<open>n\<close>, divided by 1000 as doubles are, which is infinite when \<open>n\<close> is
  beyond the range of a double. The Unicode tables are assumed sane (\<open>unicode_ok\<close>).
\<close>

theorem PCA_parseTimer_digits:
  assumes "unicode_ok w" "PCA_parseTimer w data = (Returns (TimerV t), tr)"
  shows "\<exists>u g. decode data = Some u
           \<and> re_match (str_classes w) pca_pre pca_grp pca_post u = Some g
           \<and> g \<noteq> [] \<and> list_all (\<lambda>c. todecimal w c \<noteq> None) g
           \<and> count_list g 46 \<noteq> 1
           \<and> t = fdiv (to_double (of_nat (digits_val (to_ascii w g)))) 1000"
proof -
  from assms(2) obtain u where u: "decode data = Some u"
    by (auto simp: PCA_parseTimer_def split: option.splits)
  with assms(2) obtain g where g: "re_match (str_classes w) pca_pre pca_grp pca_post u = Some g"
    by (auto simp: PCA_parseTimer_def split: option.splits)
  from pca_group_digits[OF g] have d: "g \<noteq> []" "list_all (\<lambda>c. todecimal w c \<noteq> None) g"
    by auto
  from PCA_parseTimer_matched[OF assms(1) u g] assms(2)
  have t: "t = fdiv (to_double (of_nat (digits_val (to_ascii w g)))) 1000" by simp
  from digits_no_sep(1)[OF assms(1) d(2)] have "count_list g 46 \<noteq> 1" by simp
  with u g d t show ?thesis by blast
qed

lemma rev_runs_last:
  assumes "list_all P ds" "\<not> P c"
  shows "\<exists>xs. rev (runs P (ds @ c # r)) = (c # r) # xs"
  using assms(1)
proof (induction ds)
  case Nil
  with assms(2) show ?case by simp
next
  case (Cons d ds)
  then obtain xs where "rev (runs P (ds @ c # r)) = (c # r) # xs" by auto
  with Cons.prems show ?case by simp
qed

lemma plus_longest:
  assumes "ds \<noteq> []" "list_all (atom_ok k a) ds" "\<not> atom_ok k a c"
  shows "\<exists>xs. piece k (a, Plus) (ds @ c # r) = (c # r) # xs"
proof -
  from assms(1) obtain d ds' where ds: "ds = d # ds'" by (cases ds) auto
  with assms(2) have d: "atom_ok k a d" and r: "list_all (atom_ok k a) ds'" by auto
  from rev_runs_last[OF r assms(3)] obtain xs where
    "rev (runs (atom_ok k a) (ds' @ c # r)) = (c # r) # xs" by blast
  with d ds show ?thesis by simp
qed

lemma pca_match_digits:
  assumes ne: "ds \<noteq> []" and dg: "list_all (\<lambda>c. 48 \<le> c \<and> c \<le> 57) ds"
  shows "re_match (str_classes (latin1 p)) pca_pre pca_grp pca_post
           (lit ''datasource.load: '' @ ds @ lit '' ms'') = Some ds"
proof -
  let ?k = "str_classes (latin1 p)"
  let ?X = "ds @ lit '' ms''"
  from ne obtain d ds' where ds: "ds = d # ds'" by (cases ds) auto
  with dg have d: "48 \<le> d" "d \<le> 57" by auto
  have p1: "\<exists>xs. pieces ?k pca_pre (lit ''datasource.load: '' @ ?X) = ?X # xs"
    using d by (simp add: ds pca_pre_def chars_def lit_def str_classes_def latin1_def)
  have dig: "list_all (atom_ok ?k Digit) ds"
    using dg by (auto simp: list_all_iff str_classes_def latin1_def)
  have nd: "\<not> atom_ok ?k Digit 32"
    by (simp add: str_classes_def latin1_def)
  from plus_longest[OF ne dig nd, of "lit ''ms''"]
  obtain ys where "piece ?k (Digit, Plus) (ds @ 32 # lit ''ms'') = (32 # lit ''ms'') # ys" by blast
  then have p2: "\<exists>zs. pieces ?k pca_grp ?X = lit '' ms'' # zs"
    by (simp add: pca_grp_def lit_def)
  have p3: "pieces ?k pca_post (lit '' ms'') = [[]]"
    by (simp add: pca_post_def chars_def lit_def str_classes_def latin1_def)
  from p1 obtain xs where x: "pieces ?k pca_pre (lit ''datasource.load: '' @ ?X) = ?X # xs" by blast
  from p2 obtain zs where z: "pieces ?k pca_grp ?X = lit '' ms'' # zs" by blast
  show ?thesis
    by (simp add: re_match_def x z p3)
qed

lemma decode_ascii:
  "list_all (\<lambda>c. (of_char c :: nat) < 128) s \<Longrightarrow> decode s = Some (map of_char s)"
  by (induction s) auto

lemma to_ascii_ascii:
  "list_all (\<lambda>c. (of_char c :: nat) < 127) s \<Longrightarrow> to_ascii w (map of_char s) = s"
  by (induction s) auto

lemma foldl_nines:
  "foldl (\<lambda>n c. 10 * n + ((of_char c :: nat) - 48)) a (replicate m (CHR ''9''))
     = a * 10 ^ m + (10 ^ m - 1)"
proof (induction m arbitrary: a)
  case 0
  then show ?case by simp
next
  case (Suc m)
  have s: "foldl (\<lambda>n c. 10 * n + ((of_char c :: nat) - 48)) a (replicate (Suc m) (CHR ''9''))
             = foldl (\<lambda>n c. 10 * n + ((of_char c :: nat) - 48)) (10 * a + 9) (replicate m (CHR ''9''))"
    by simp
  obtain k :: nat where k: "10 ^ m = Suc k"
    by (metis not0_implies_Suc power_not_zero zero_neq_numeral)
  show ?case
    unfolding s Suc.IH by (simp add: k algebra_simps)
qed

lemma digits_val_nines: "digits_val (replicate m (CHR ''9'')) = 10 ^ m - 1"
  by (simp add: digits_val_def foldl_nines)

lemma nines_overflow: "pow2 1024 \<le> of_nat (10 ^ 309 - 1)"
proof -
  have "(2::nat) ^ 1024 \<le> 10 ^ 309 - 1" by simp
  then have "(of_nat (2 ^ 1024) :: rat) \<le> of_nat (10 ^ 309 - 1)"
    by (simp only: of_nat_le_iff)
  then show ?thesis by (simp add: pow2_def)
qed

lemma char_of_eq_iff2: "(c = char_of (n::nat)) = (n mod 256 = of_char c)"
  by (metis char_of_mod_256 char_of_char of_char_of)

lemmas pca_eval = char_of_eq_iff1 char_of_eq_iff2 Let_def
  PCA_RunMetrics_def process_options_def pop_def check_output_def latin1_def
  PCA_init_def PCA_parseTimer_def re_match_def pca_pre_def pca_grp_def pca_post_def
  str_classes_def chars_def lit_def pca_cmd_def total_time_def timer_of_def

lemmas float_eval = float_of_str_def float_of_ascii_def strip_def py_isspace_def py_isdigit_def
  inf_or_nan_def signed_def py_tolower_def decimal_def exponent_def scale_def digits_val_def
  fdiv_def float_of_bytes_def replace_comma_def double_1500 double_3_2 double_0734

lemmas gmm_eval = Let_def GMM_RunTiming_def GMM_parseTimer_def GMM_init_def gmm_pre_def gmm_grp_def
  gmm_post_def descr_pre_def descr_grp_def descr_post_def bytes_classes_def re_match_def
  chars_def check_output_def latin1_def lit_def GetTime_def em_def truthy_def

lemma unicode_ok_latin1: "unicode_ok (latin1 p)"
  by (auto simp: unicode_ok_def latin1_def split: if_splits)

lemma parse_1500: "PCA_parseTimer (latin1 NoLaunch) ''datasource.load: 1500 ms''
   = (Returns (TimerV (Finite 1.5)), [])"
  by (simp add: pca_eval float_eval)

theorem PCA_parseTimer_digits_witness:
  "unicode_ok (latin1 NoLaunch)
   \<and> PCA_parseTimer (latin1 NoLaunch) ''datasource.load: 1500 ms'' = (Returns (TimerV (Finite 1.5)), [])
   \<and> (\<exists>u g. decode ''datasource.load: 1500 ms'' = Some u
           \<and> re_match (str_classes (latin1 NoLaunch)) pca_pre pca_grp pca_post u = Some g
           \<and> g \<noteq> [] \<and> list_all (\<lambda>c. todecimal (latin1 NoLaunch) c \<noteq> None) g
           \<and> count_list g 46 \<noteq> 1
           \<and> Finite 1.5 = fdiv (to_double (of_nat (digits_val (to_ascii (latin1 NoLaunch) g)))) 1000)"
  using PCA_parseTimer_digits[OF unicode_ok_latin1 parse_1500] unicode_ok_latin1 parse_1500
  by blast

text \<open>
  The claim as the spec states it fails on a long run of digits: a timer of 309 nines is
  beyond the range of a double, \<^verbatim>\<open>float\<close> gives infinity, and so does the division; the
  result is no number of milliseconds divided by 1000.
\<close>

theorem long_timer_counterexample:
  "PCA_parseTimer (latin1 NoLaunch) (''datasource.load: '' @ replicate 309 (CHR ''9'') @ '' ms'')
     = (Returns (TimerV (Infinite False)), [])"
proof -
  let ?ds = "map of_char (replicate 309 (CHR ''9'')) :: nat list"
  have d: "decode (''datasource.load: '' @ replicate 309 (CHR ''9'') @ '' ms'')
             = Some (lit ''datasource.load: '' @ ?ds @ lit '' ms'')"
    by (subst decode_ascii) (simp_all add: lit_def list_all_iff)
  have ne: "?ds \<noteq> []" by simp
  have dg: "list_all (\<lambda>c. 48 \<le> c \<and> c \<le> 57) ?ds"
    by (simp add: list_all_iff)
  note m = pca_match_digits[OF ne dg, of NoLaunch]
  have a: "to_ascii (latin1 NoLaunch) ?ds = replicate 309 (CHR ''9'')"
    by (rule to_ascii_ascii) (simp add: list_all_iff)
  have "fdiv (to_double (of_nat (digits_val (to_ascii (latin1 NoLaunch) ?ds)))) 1000 = Infinite False"
    by (simp only: a digits_val_nines to_double_overflow[OF nines_overflow]) (simp add: fdiv_def)
  with PCA_parseTimer_matched[OF unicode_ok_latin1 d m] show ?thesis
    by simp
qed

subsection \<open>Numeric normalization\<close>







section \<open>Process failures and returns\<close>

lemma check_output_never_hangs: "fst (check_output w cmd (Some t)) \<noteq> Hangs"
  by (simp add: check_output_def split: proc.splits)

lemma PCA_RunMetrics_exec_failure:
  assumes "process_options options = (Returns opts, rest, t1)"
    and "fst (check_output w (pca_cmd self opts) (Some (timeout self))) = Raises e"
  shows "fst (PCA_RunMetrics w self options) = Returns (IntV (if e = TimeoutExpired then - 2 else - 1))"
  using assms by (cases "check_output w (pca_cmd self opts) (Some (timeout self))")
    (simp add: Let_def PCA_RunMetrics_def)

lemma GMM_RunTiming_exec_failure:
  assumes "shlex_split w (path self @ lit ''gmm -i '' @ dataset self @ lit '' -v '' @ os) = Inr cmd"
    and "fst (check_output w cmd (Some (timeout self))) = Raises e"
  shows "fst (GMM_RunTiming w self (AStr os)) = Returns (IntV (if e = TimeoutExpired then - 2 else - 1))"
  using assms by (cases "check_output w cmd (Some (timeout self))")
    (simp add: Let_def GMM_RunTiming_def)

lemma PCA_RunMetrics_returns:
  assumes po: "process_options options = (Returns opts, rest, t1)"
    and ok: "unicode_ok w"
    and dec: "\<And>out. fst (check_output w (pca_cmd self opts) (Some (timeout self))) = Returns out
               \<Longrightarrow> decode out \<noteq> None"
  shows "\<exists>v. fst (PCA_RunMetrics w self options) = Returns v"
proof (cases "check_output w (pca_cmd self opts) (Some (timeout self))")
  case (Pair r t2)
  show ?thesis
  proof (cases r)
    case (Returns out)
    with Pair dec obtain u where u: "decode out = Some u" by auto
    show ?thesis
    proof (cases "re_match (str_classes w) pca_pre pca_grp pca_post u")
      case None
      then show ?thesis
        by (simp add: Let_def PCA_RunMetrics_def po Pair Returns PCA_parseTimer_def u)
    next
      case (Some g)
      from PCA_parseTimer_matched[OF ok u Some] show ?thesis
        by (simp add: Let_def PCA_RunMetrics_def po Pair Returns total_time_def)
    qed
  next
    case (Raises e)
    then show ?thesis by (simp add: Let_def PCA_RunMetrics_def po Pair)
  next
    case Hangs
    with Pair check_output_never_hangs[of w "pca_cmd self opts" "timeout self"]
    show ?thesis by simp
  qed
qed

lemma PCA_RunMetrics_mismatch_logged:
  assumes po: "process_options options = (Returns opts, rest, t1)"
    and "fst (check_output w (pca_cmd self opts) (Some (timeout self))) = Returns out"
    and "decode out = Some u"
    and "re_match (str_classes w) pca_pre pca_grp pca_post u = None"
  shows "\<exists>v. fst (PCA_RunMetrics w self options) = Returns v"
    and "Log Fatal Cant_parse_wrong_format None \<in> set (snd (PCA_RunMetrics w self options))"
  using assms by (cases "check_output w (pca_cmd self opts) (Some (timeout self))";
    simp add: Let_def PCA_RunMetrics_def PCA_parseTimer_def)+

section \<open>The outcome of \<^verbatim>\<open>RunMetrics\<close>\<close>

text \<open>
  Claim C1. A metrics dictionary should be returned only when the child exited in time
  with status 0 and the timer pattern matched. The code differs: when the child succeeds
  but its output does not match, \<^verbatim>\<open>parseTimer\<close> returns \<open>-1\<close>, \<^verbatim>\<open>RunMetrics\<close> skips the
  assignment and still returns the dictionary, empty, where its docstring promises a
  negative value.
\<close>

theorem parse_failure_returns_empty_metrics:
  "PCA_RunMetrics (latin1 (Exits 1 0 ''NullAlgorithm.runtime: 3 ms''))
     (PCA_init (lit ''iris.csv'') (Some 240) (lit ''/opt/'') None) []
   = (Returns (DictV []),
      [Log Info Perform_PCA (Some True),
       Exec (pca_cmd (PCA_init (lit ''iris.csv'') (Some 240) (lit ''/opt/'') None)
               [lit ''-dbc.filter'', lit ''transform.GlobalPrincipalComponentAnalysisTransform''])
            (Some 240),
       Log Fatal Cant_parse_wrong_format None])"
  by (simp add: pca_eval)

lemma zero_timeout_expires:
  assumes "0 < d" "child w cmd = Exits d st out"
  shows "fst (check_output w cmd (Some 0)) = Raises TimeoutExpired"
  using assms by (simp add: check_output_def)

text \<open>
  Claim C4. The constructor documents its default timeout \<open>0\<close> as "no timeout", but the
  value goes to \<^verbatim>\<open>check_output\<close> unchanged, where it is a timeout of zero seconds: a child
  that would have printed its timer after one second is killed and \<^verbatim>\<open>RunMetrics\<close> returns
  \<open>-2\<close>.
\<close>

theorem default_timeout_expires:
  "timeout (PCA_init (lit ''iris.csv'') None (lit ''/opt/'') None) = 0
   \<and> PCA_RunMetrics (latin1 (Exits 1 0 ''datasource.load: 1500 ms''))
       (PCA_init (lit ''iris.csv'') None (lit ''/opt/'') None) []
     = (Returns (IntV (- 2)),
        [Log Info Perform_PCA (Some True),
         Exec (pca_cmd (PCA_init (lit ''iris.csv'') None (lit ''/opt/'') None)
                 [lit ''-dbc.filter'', lit ''transform.GlobalPrincipalComponentAnalysisTransform''])
              (Some 0),
         Log Warn (Str_of TimeoutExpired) None])"
  by (simp add: pca_eval)

text \<open>
  Claim C5. When the probe \<^verbatim>\<open>gmm -h\<close> cannot be run, construction goes on, but the
  object gets no \<^verbatim>\<open>description\<close> attribute at all (rather than an empty one) and the
  message is logged as fatal; only when the probe runs and its output has no
  \<^verbatim>\<open>Required ... options:\<close> part is the description empty and a warning logged.
\<close>

theorem probe_failure_leaves_description_unset:
  "GMM_init (latin1 NoLaunch) (lit ''iris.csv'') None (lit ''bin/'') None (lit ''dbg/'')
     = (Returns \<lparr>verbose = True, dataset = lit ''iris.csv'', path = lit ''bin/'', timeout = 0,
                  debug = lit ''dbg/'', description = None\<rparr>,
        [Exec [lit ''bin/gmm'', lit ''-h''] None,
         Log Fatal (Could_not_execute [lit ''bin/gmm'', lit ''-h'']) None])
   \<and> GMM_init (latin1 (Exits 1 0 ''usage: gmm'')) (lit ''iris.csv'') None (lit ''bin/'') None (lit ''dbg/'')
     = (Returns \<lparr>verbose = True, dataset = lit ''iris.csv'', path = lit ''bin/'', timeout = 0,
                  debug = lit ''dbg/'', description = Some (Str [])\<rparr>,
        [Exec [lit ''bin/gmm'', lit ''-h''] None,
         Log Warn Cant_parse_description (Some True)])"
  by (simp add: gmm_eval)

lemma process_options_empty:
  "process_options []
     = (Returns [lit ''-dbc.filter'', lit ''transform.GlobalPrincipalComponentAnalysisTransform''], [], [])"
  by (simp add: process_options_def)

text \<open>
  Claim C2, as amended. A failure of command construction is logged and then raised to
  the caller of \<^verbatim>\<open>PCA.RunMetrics\<close> as the exception \<^verbatim>\<open>unknown parameters\<close>. With
  recognized options only, sane Unicode tables and an output that decodes, the call
  returns a value and raises nothing; in particular a timer that does not parse is logged
  (\<^verbatim>\<open>wrong format\<close>) and the call returns.
\<close>

theorem PCA_RunMetrics_faults:
  "(\<not> set (map fst options) \<subseteq> {lit ''whiten'', lit ''new_dimensionality''}
      \<longrightarrow> fst (PCA_RunMetrics w self options) = Raises (Exception (lit ''unknown parameters''))
          \<and> Log Fatal (Unknown_parameters
                 (filter (\<lambda>kv. fst kv \<noteq> lit ''whiten'' \<and> fst kv \<noteq> lit ''new_dimensionality'') options))
               None \<in> set (snd (PCA_RunMetrics w self options)))
   \<and> (process_options options = (Returns opts, rest, t1) \<and> unicode_ok w
       \<and> (case fst (check_output w (pca_cmd self opts) (Some (timeout self))) of
             Returns out \<Rightarrow> decode out \<noteq> None | _ \<Rightarrow> True)
      \<longrightarrow> (\<exists>v. fst (PCA_RunMetrics w self options) = Returns v))
   \<and> (process_options options = (Returns opts, rest, t1)
       \<and> fst (check_output w (pca_cmd self opts) (Some (timeout self))) = Returns out
       \<and> decode out = Some u
       \<and> re_match (str_classes w) pca_pre pca_grp pca_post u = None
      \<longrightarrow> (\<exists>v. fst (PCA_RunMetrics w self options) = Returns v)
          \<and> Log Fatal Cant_parse_wrong_format None \<in> set (snd (PCA_RunMetrics w self options)))"
proof (intro conjI impI)
  assume a: "\<not> set (map fst options) \<subseteq> {lit ''whiten'', lit ''new_dimensionality''}"
  define r where "r = filter (\<lambda>kv. fst kv \<noteq> lit ''whiten'' \<and> fst kv \<noteq> lit ''new_dimensionality'') options"
  have "fst (snd (process_options options)) = r"
    by (simp only: process_options_rest r_def)
  moreover have "r \<noteq> []"
    using a unfolding r_def by (simp only: rest_empty_iff) simp
  ultimately have po: "process_options options
              = (Raises (Exception (lit ''unknown parameters'')), r,
                 [Log Fatal (Unknown_parameters r) None])"
    using process_options_cases[of options] by simp
  show "fst (PCA_RunMetrics w self options) = Raises (Exception (lit ''unknown parameters''))"
    by (simp add: PCA_RunMetrics_def po)
  show "Log Fatal (Unknown_parameters
                 (filter (\<lambda>kv. fst kv \<noteq> lit ''whiten'' \<and> fst kv \<noteq> lit ''new_dimensionality'') options))
               None \<in> set (snd (PCA_RunMetrics w self options))"
    unfolding r_def[symmetric] by (simp add: PCA_RunMetrics_def po)
next
  assume a: "process_options options = (Returns opts, rest, t1) \<and> unicode_ok w
       \<and> (case fst (check_output w (pca_cmd self opts) (Some (timeout self))) of
             Returns out \<Rightarrow> decode out \<noteq> None | _ \<Rightarrow> True)"
  then have "\<And>out. fst (check_output w (pca_cmd self opts) (Some (timeout self))) = Returns out
               \<Longrightarrow> decode out \<noteq> None"
    by simp
  with a show "\<exists>v. fst (PCA_RunMetrics w self options) = Returns v"
    using PCA_RunMetrics_returns[of options opts rest t1 w self] by blast
next
  assume a: "process_options options = (Returns opts, rest, t1)
       \<and> fst (check_output w (pca_cmd self opts) (Some (timeout self))) = Returns out
       \<and> decode out = Some u
       \<and> re_match (str_classes w) pca_pre pca_grp pca_post u = None"
  then show "\<exists>v. fst (PCA_RunMetrics w self options) = Returns v"
    using PCA_RunMetrics_mismatch_logged(1)[of options opts rest t1 w self out u] by blast
  from a show "Log Fatal Cant_parse_wrong_format None \<in> set (snd (PCA_RunMetrics w self options))"
    using PCA_RunMetrics_mismatch_logged(2)[of options opts rest t1 w self out u] by blast
qed

theorem PCA_RunMetrics_faults_witness:
  "\<not> set (map fst [(lit ''verbose'', PBool True)]) \<subseteq> {lit ''whiten'', lit ''new_dimensionality''}
   \<and> fst (PCA_RunMetrics (latin1 (Exits 1 0 ''NullAlgorithm.runtime: 3 ms''))
            (PCA_init (lit ''iris.csv'') (Some 240) (lit ''/opt/'') None) [(lit ''verbose'', PBool True)])
       = Raises (Exception (lit ''unknown parameters''))
   \<and> process_options []
       = (Returns [lit ''-dbc.filter'', lit ''transform.GlobalPrincipalComponentAnalysisTransform''], [], [])
   \<and> unicode_ok (latin1 (Exits 1 0 ''NullAlgorithm.runtime: 3 ms''))
   \<and> fst (check_output (latin1 (Exits 1 0 ''NullAlgorithm.runtime: 3 ms''))
            (pca_cmd (PCA_init (lit ''iris.csv'') (Some 240) (lit ''/opt/'') None)
               [lit ''-dbc.filter'', lit ''transform.GlobalPrincipalComponentAnalysisTransform''])
            (Some (timeout (PCA_init (lit ''iris.csv'') (Some 240) (lit ''/opt/'') None))))
       = Returns ''NullAlgorithm.runtime: 3 ms''
   \<and> decode ''NullAlgorithm.runtime: 3 ms'' = Some (lit ''NullAlgorithm.runtime: 3 ms'')
   \<and> re_match (str_classes (latin1 (Exits 1 0 ''NullAlgorithm.runtime: 3 ms'')))
        pca_pre pca_grp pca_post (lit ''NullAlgorithm.runtime: 3 ms'') = None
   \<and> (\<exists>v. fst (PCA_RunMetrics (latin1 (Exits 1 0 ''NullAlgorithm.runtime: 3 ms''))
                 (PCA_init (lit ''iris.csv'') (Some 240) (lit ''/opt/'') None) []) = Returns v)
   \<and> Log Fatal Cant_parse_wrong_format None
       \<in> set (snd (PCA_RunMetrics (latin1 (Exits 1 0 ''NullAlgorithm.runtime: 3 ms''))
                 (PCA_init (lit ''iris.csv'') (Some 240) (lit ''/opt/'') None) []))"
proof -
  let ?w = "latin1 (Exits 1 0 ''NullAlgorithm.runtime: 3 ms'')"
  let ?self = "PCA_init (lit ''iris.csv'') (Some 240) (lit ''/opt/'') None"
  let ?opts = "[lit ''-dbc.filter'', lit ''transform.GlobalPrincipalComponentAnalysisTransform'']"
  have h1: "\<not> set (map fst [(lit ''verbose'', PBool True)]) \<subseteq> {lit ''whiten'', lit ''new_dimensionality''}"
    by (simp add: lit_def)
  have h2: "fst (check_output ?w (pca_cmd ?self ?opts) (Some (timeout ?self)))
              = Returns ''NullAlgorithm.runtime: 3 ms''"
    by (simp add: check_output_def latin1_def PCA_init_def)
  have h3: "decode ''NullAlgorithm.runtime: 3 ms'' = Some (lit ''NullAlgorithm.runtime: 3 ms'')"
    by (simp add: lit_def)
  have h4: "re_match (str_classes ?w) pca_pre pca_grp pca_post (lit ''NullAlgorithm.runtime: 3 ms'') = None"
    by (simp add: pca_eval)
  have h5: "(case fst (check_output ?w (pca_cmd ?self ?opts) (Some (timeout ?self))) of
               Returns out \<Rightarrow> decode out \<noteq> None | _ \<Rightarrow> True)"
    by (simp add: h2 h3)
  note a = PCA_RunMetrics_faults[of "[(lit ''verbose'', PBool True)]" ?w ?self]
  note b = PCA_RunMetrics_faults[of "[]" ?w ?self ?opts "[]" "[]" "''NullAlgorithm.runtime: 3 ms''"
      "lit ''NullAlgorithm.runtime: 3 ms''"]
  from a h1 have c1: "fst (PCA_RunMetrics ?w ?self [(lit ''verbose'', PBool True)])
       = Raises (Exception (lit ''unknown parameters''))"
    by blast
  from b process_options_empty unicode_ok_latin1 h5
  have c2: "\<exists>v. fst (PCA_RunMetrics ?w ?self []) = Returns v"
    by blast
  from b process_options_empty h2 h3 h4
  have c3: "Log Fatal Cant_parse_wrong_format None \<in> set (snd (PCA_RunMetrics ?w ?self []))"
    by blast
  from h1 c1 process_options_empty unicode_ok_latin1 h2 h3 h4 c2 c3 show ?thesis
    by blast
qed

text \<open>
  The claim as the spec states it fails: an unrecognized option makes \<^verbatim>\<open>RunMetrics\<close> raise.
\<close>

theorem RunMetrics_raises_counterexample:
  "PCA_RunMetrics (latin1 (Exits 1 0 ''datasource.load: 12 ms''))
     (PCA_init (lit ''iris.csv'') (Some 240) (lit ''/opt/'') None) [(lit ''verbose'', PBool True)]
   = (Raises (Exception (lit ''unknown parameters'')),
      [Log Info Perform_PCA (Some True),
       Log Fatal (Unknown_parameters [(lit ''verbose'', PBool True)]) None])"
  by (simp add: pca_eval)

text \<open>
  Claim C6, as amended. A failure of the process stage of \<^verbatim>\<open>PCA.RunMetrics\<close> and of
  \<^verbatim>\<open>GMM.RunTiming\<close> ends the call with a negative code: \<open>-2\<close> when \<^verbatim>\<open>check_output\<close> raised
  \<^verbatim>\<open>TimeoutExpired\<close> (the child never exits, or exits after the timeout), \<open>-1\<close> for any
  other exception of the launch or the run; the two codes tell a timeout from a crash.
\<close>

theorem exec_failure_sentinels:
  "(process_options options = (Returns opts, rest, t1)
      \<and> fst (check_output w (pca_cmd self opts) (Some (timeout self))) = Raises e
    \<longrightarrow> fst (PCA_RunMetrics w self options)
          = Returns (IntV (if e = TimeoutExpired then - 2 else - 1)))
   \<and> (shlex_split w (path g @ lit ''gmm -i '' @ dataset g @ lit '' -v '' @ os) = Inr cmd
      \<and> fst (check_output w cmd (Some (timeout g))) = Raises e
    \<longrightarrow> fst (GMM_RunTiming w g (AStr os))
          = Returns (IntV (if e = TimeoutExpired then - 2 else - 1)))
   \<and> (fst (check_output w cmd (Some t)) = Raises e
    \<longrightarrow> (e = TimeoutExpired) = (case child w cmd of Forever \<Rightarrow> True | Exits d st out \<Rightarrow> t < d | NoLaunch \<Rightarrow> False))"
proof -
  have "(fst (check_output w cmd (Some t)) = Raises e
    \<longrightarrow> (e = TimeoutExpired) = (case child w cmd of Forever \<Rightarrow> True | Exits d st out \<Rightarrow> t < d | NoLaunch \<Rightarrow> False))"
    by (auto simp: check_output_def split: proc.splits if_splits)
  then show ?thesis
    using PCA_RunMetrics_exec_failure GMM_RunTiming_exec_failure by blast
qed

theorem exec_failure_sentinels_witness:
  "process_options []
     = (Returns [lit ''-dbc.filter'', lit ''transform.GlobalPrincipalComponentAnalysisTransform''], [], [])
   \<and> fst (check_output (latin1 Forever)
            (pca_cmd (PCA_init (lit ''iris.csv'') (Some 240) (lit ''/opt/'') None)
               [lit ''-dbc.filter'', lit ''transform.GlobalPrincipalComponentAnalysisTransform''])
            (Some (timeout (PCA_init (lit ''iris.csv'') (Some 240) (lit ''/opt/'') None))))
       = Raises TimeoutExpired
   \<and> fst (PCA_RunMetrics (latin1 Forever) (PCA_init (lit ''iris.csv'') (Some 240) (lit ''/opt/'') None) [])
       = Returns (IntV (- 2))
   \<and> shlex_split (latin1 NoLaunch)
        (path \<lparr>verbose = True, dataset = lit ''iris.csv'', path = lit ''bin/'', timeout = 240,
                debug = lit ''dbg/'', description = None\<rparr>
         @ lit ''gmm -i ''
         @ dataset \<lparr>verbose = True, dataset = lit ''iris.csv'', path = lit ''bin/'', timeout = 240,
                     debug = lit ''dbg/'', description = None\<rparr>
         @ lit '' -v '' @ lit ''-g 3'')
       = Inr [lit ''bin/gmm'', lit ''-i'', lit ''iris.csv'', lit ''-v'', lit ''-g'', lit ''3'']
   \<and> fst (check_output (latin1 NoLaunch)
            [lit ''bin/gmm'', lit ''-i'', lit ''iris.csv'', lit ''-v'', lit ''-g'', lit ''3'']
            (Some (timeout \<lparr>verbose = True, dataset = lit ''iris.csv'', path = lit ''bin/'',
                            timeout = 240, debug = lit ''dbg/'', description = None\<rparr>)))
       = Raises OSError
   \<and> fst (GMM_RunTiming (latin1 NoLaunch)
            \<lparr>verbose = True, dataset = lit ''iris.csv'', path = lit ''bin/'', timeout = 240,
             debug = lit ''dbg/'', description = None\<rparr> (AStr (lit ''-g 3'')))
       = Returns (IntV (- 1))
   \<and> (OSError = TimeoutExpired) = (case child (latin1 NoLaunch)
            [lit ''bin/gmm'', lit ''-i'', lit ''iris.csv'', lit ''-v'', lit ''-g'', lit ''3''] of
          Forever \<Rightarrow> True | Exits d st out \<Rightarrow> 240 < d | NoLaunch \<Rightarrow> False)"
proof -
  let ?self = "PCA_init (lit ''iris.csv'') (Some 240) (lit ''/opt/'') None"
  let ?opts = "[lit ''-dbc.filter'', lit ''transform.GlobalPrincipalComponentAnalysisTransform'']"
  let ?g = "\<lparr>verbose = True, dataset = lit ''iris.csv'', path = lit ''bin/'', timeout = 240,
             debug = lit ''dbg/'', description = None\<rparr>"
  let ?cmd = "[lit ''bin/gmm'', lit ''-i'', lit ''iris.csv'', lit ''-v'', lit ''-g'', lit ''3'']"
  have h1: "fst (check_output (latin1 Forever) (pca_cmd ?self ?opts) (Some (timeout ?self)))
              = Raises TimeoutExpired"
    by (simp add: check_output_def latin1_def)
  have h2: "shlex_split (latin1 NoLaunch) (path ?g @ lit ''gmm -i '' @ dataset ?g @ lit '' -v '' @ lit ''-g 3'')
              = Inr ?cmd"
    by (simp add: latin1_def lit_def)
  have h3: "fst (check_output (latin1 NoLaunch) ?cmd (Some (timeout ?g))) = Raises OSError"
    by (simp add: check_output_def latin1_def)
  have h3': "fst (check_output (latin1 NoLaunch) ?cmd (Some 240)) = Raises OSError"
    by (simp add: check_output_def latin1_def)
  note a = exec_failure_sentinels[of "[]" ?opts "[]" "[]" "latin1 Forever" ?self TimeoutExpired]
  note b = exec_failure_sentinels[of _ _ _ _ "latin1 NoLaunch" _ OSError ?g "lit ''-g 3''" ?cmd 240]
  from a process_options_empty h1
  have c1: "fst (PCA_RunMetrics (latin1 Forever) ?self []) = Returns (IntV (- 2))"
    by simp
  from b h2 h3
  have c2: "fst (GMM_RunTiming (latin1 NoLaunch) ?g (AStr (lit ''-g 3''))) = Returns (IntV (- 1))"
    by simp
  from b h3'
  have c3: "(OSError = TimeoutExpired) = (case child (latin1 NoLaunch) ?cmd of
          Forever \<Rightarrow> True | Exits d st out \<Rightarrow> 240 < d | NoLaunch \<Rightarrow> False)"
    by blast
  from process_options_empty h1 c1 h2 h3 c2 c3 show ?thesis
    by blast
qed

text \<open>
  The claim as the spec states it fails for the other stages: a failure of the command
  builder is raised, and a timer that does not parse gives an empty dictionary.
\<close>

theorem stage_failure_counterexample:
  "fst (PCA_RunMetrics (latin1 (Exits 1 0 ''datasource.load: 12 ms''))
          (PCA_init (lit ''iris.csv'') (Some 240) (lit ''/opt/'') None) [(lit ''k'', PInt 3)])
     = Raises (Exception (lit ''unknown parameters''))
   \<and> fst (PCA_RunMetrics (latin1 (Exits 1 0 ''Exception in thread main''))
          (PCA_init (lit ''iris.csv'') (Some 240) (lit ''/opt/'') None) [])
     = Returns (DictV [])"
  by (simp add: pca_eval)

section \<open>\<^verbatim>\<open>GMM.RunTiming\<close>\<close>

lemma parse_em: "GMM_parseTimer ''em: 0.734s'' = (Returns (TimerV (to_double 0.734)), [])"
  by (simp add: gmm_eval float_eval)

text \<open>
  Claim C9, as amended. On a \<^verbatim>\<open>GMM\<close> object, \<^verbatim>\<open>RunTiming\<close> called with an options string
  against an executable that prints \<^verbatim>\<open>em: 0.734s\<close> within the timeout returns the float
  0.734 (the double nearest to it), the value \<^verbatim>\<open>GetTime\<close> reads from the parsed timer.
\<close>

theorem GMM_RunTiming_em:
  assumes "shlex_split w (path self @ lit ''gmm -i '' @ dataset self @ lit '' -v '' @ os) = Inr cmd"
    and "child w cmd = Exits d 0 ''em: 0.734s''"
    and "d \<le> timeout self"
  shows "GMM_RunTiming w self (AStr os)
           = (Returns (FloatV (to_double 0.734)),
              [Log Info Perform_GMM (Some (verbose self)),
               Exec cmd (Some (timeout self)),
               Log Info (Total_time (to_double 0.734)) (Some (verbose self))])
         \<and> GetTime (TimerV (to_double 0.734)) = Returns (to_double 0.734)"
proof -
  from assms(2,3) have "check_output w cmd (Some (timeout self))
      = (Returns ''em: 0.734s'', [Exec cmd (Some (timeout self))])"
    by (simp add: check_output_def)
  then show ?thesis
    by (simp add: GMM_RunTiming_def assms(1) parse_em truthy_def GetTime_def em_def)
qed

theorem GMM_RunTiming_em_witness:
  "GMM_init (latin1 (Exits 1 0 ''em: 0.734s'')) (lit ''iris.csv'') (Some 240) (lit ''bin/'') None (lit ''dbg/'')
     = (Returns \<lparr>verbose = True, dataset = lit ''iris.csv'', path = lit ''bin/'', timeout = 240,
                  debug = lit ''dbg/'', description = Some (Str [])\<rparr>,
        [Exec [lit ''bin/gmm'', lit ''-h''] None, Log Warn Cant_parse_description (Some True)])
   \<and> GMM_RunTiming (latin1 (Exits 1 0 ''em: 0.734s''))
        \<lparr>verbose = True, dataset = lit ''iris.csv'', path = lit ''bin/'', timeout = 240,
         debug = lit ''dbg/'', description = Some (Str [])\<rparr> (AStr [])
      = (Returns (FloatV (to_double 0.734)),
         [Log Info Perform_GMM (Some True),
          Exec [lit ''bin/gmm'', lit ''-i'', lit ''iris.csv'', lit ''-v''] (Some 240),
          Log Info (Total_time (to_double 0.734)) (Some True)])"
proof -
  let ?w = "latin1 (Exits 1 0 ''em: 0.734s'')"
  let ?g = "\<lparr>verbose = True, dataset = lit ''iris.csv'', path = lit ''bin/'', timeout = 240,
         debug = lit ''dbg/'', description = Some (Str [])\<rparr>"
  let ?cmd = "[lit ''bin/gmm'', lit ''-i'', lit ''iris.csv'', lit ''-v'']"
  have i: "GMM_init ?w (lit ''iris.csv'') (Some 240) (lit ''bin/'') None (lit ''dbg/'')
     = (Returns ?g, [Exec [lit ''bin/gmm'', lit ''-h''] None, Log Warn Cant_parse_description (Some True)])"
    by (simp add: gmm_eval)
  have h1: "shlex_split ?w (path ?g @ lit ''gmm -i '' @ dataset ?g @ lit '' -v '' @ []) = Inr ?cmd"
    by (simp add: latin1_def lit_def)
  have h2: "child ?w ?cmd = Exits 1 0 ''em: 0.734s''"
    by (simp add: latin1_def)
  have h3: "(1::rat) \<le> timeout ?g" by simp
  from GMM_RunTiming_em[OF h1 h2 h3] i show ?thesis by simp
qed

text \<open>
  The claim as the spec states it fails: the class \<^verbatim>\<open>GMM\<close> has no method
  \<^verbatim>\<open>RunMetrics\<close>, and its \<^verbatim>\<open>RunTiming\<close> concatenates its argument to a string, so the
  dictionary \<^verbatim>\<open>{}\<close> raises \<^verbatim>\<open>TypeError\<close>.
\<close>

theorem RunMetrics_on_GMM_counterexample:
  "''RunMetrics'' \<notin> set GMM_methods
   \<and> GMM_RunTiming (latin1 (Exits 1 0 ''em: 0.734s''))
        \<lparr>verbose = True, dataset = lit ''iris.csv'', path = lit ''bin/'', timeout = 240,
         debug = lit ''dbg/'', description = Some (Str [])\<rparr> (ADict [])
      = (Raises TypeError, [Log Info Perform_GMM (Some True)])"
  by (simp add: GMM_methods_def GMM_RunTiming_def)

end
